theory Spec2Isabelle
  imports Main
begin

section \<open>xvisbell: a visual bell for X11\<close>

text \<open>
  A shallow embedding of \<^verbatim>\<open>xvisbell.c\<close>. The C globals \<^verbatim>\<open>bell\<close> and
  \<^verbatim>\<open>flash_once\<close> become a record that is passed around, every call into Xlib, libc's
  \<^verbatim>\<open>printf\<close>, \<^verbatim>\<open>pselect\<close> and \<^verbatim>\<open>nanosleep\<close> is recorded in a list of
  effects, and everything the environment decides (clock readings, the outcome of a wait,
  the events that are pending, what the X server answers) is an argument.

  The fields of \<^verbatim>\<open>struct timespec\<close> are C \<^verbatim>\<open>long\<close>s. They hold clock readings and sums
  of two of them, far away from \<open>2^63\<close>, so they are modelled as \<open>int\<close>. Where the program
  converts between integer types of different width or signedness (argument parsing, the
  window size) the conversion is written out.
\<close>

subsection \<open>Time arithmetic\<close>

record timespec =
  tv_sec :: int
  tv_nsec :: int

text \<open>
  \<^verbatim>\<open>timespec_diff(start, end)\<close>. The borrow branch computes
  \<^verbatim>\<open>1.0e9 + end->tv_nsec - start->tv_nsec\<close> in \<^verbatim>\<open>double\<close> and stores it in a
  \<^verbatim>\<open>long\<close>; that is exact for all values below \<open>2^53\<close>, so it is integer arithmetic here.
\<close>

definition timespec_diff :: "timespec \<Rightarrow> timespec \<Rightarrow> timespec" where
  "timespec_diff start end_t =
     (if tv_sec start > tv_sec end_t \<or>
         (tv_sec start = tv_sec end_t \<and> tv_nsec start > tv_nsec end_t)
      then \<lparr>tv_sec = 0, tv_nsec = 0\<rparr>
      else if tv_nsec end_t - tv_nsec start < 0
      then \<lparr>tv_sec = tv_sec end_t - tv_sec start - 1,
            tv_nsec = 1000000000 + tv_nsec end_t - tv_nsec start\<rparr>
      else \<lparr>tv_sec = tv_sec end_t - tv_sec start,
            tv_nsec = tv_nsec end_t - tv_nsec start\<rparr>)"

text \<open>
  The instant a \<^verbatim>\<open>timespec\<close> denotes, in nanoseconds, and the values that the clock
  returns and that \<^verbatim>\<open>pselect\<close> and \<^verbatim>\<open>nanosleep\<close> accept: the nanoseconds lie in
  \<open>[0, 999999999]\<close>.
\<close>

definition to_ns :: "timespec \<Rightarrow> int" where
  "to_ns t = tv_sec t * 1000000000 + tv_nsec t"

definition timespec_valid :: "timespec \<Rightarrow> bool" where
  "timespec_valid t \<longleftrightarrow> 0 \<le> tv_sec t \<and> 0 \<le> tv_nsec t \<and> tv_nsec t < 1000000000"

text \<open>
  \<^verbatim>\<open>struct timespec duration = {bell.duration / 1000, (bell.duration % 1000) * 1000000}\<close>,
  on an \<^verbatim>\<open>unsigned long\<close> number of milliseconds.
\<close>

definition duration_of :: "int \<Rightarrow> timespec" where
  "duration_of ms = \<lparr>tv_sec = ms div 1000, tv_nsec = (ms mod 1000) * 1000000\<rparr>"

text \<open>
  \<^verbatim>\<open>clock_gettime(CLOCK_MONOTONIC, &end_time); end_time.tv_sec += duration->tv_sec;
  end_time.tv_nsec += duration->tv_nsec;\<close> with the clock reading \<open>now\<close>.
\<close>

definition deadline_after :: "timespec \<Rightarrow> timespec \<Rightarrow> timespec" where
  "deadline_after now duration =
     \<lparr>tv_sec = tv_sec now + tv_sec duration, tv_nsec = tv_nsec now + tv_nsec duration\<rparr>"

subsection \<open>Effects\<close>

text \<open>
  A call of \<^verbatim>\<open>printf\<close> is recorded with its format string and its arguments; \<open>Dec\<close>
  is the argument of a \<^verbatim>\<open>%d\<close>, the \<^verbatim>\<open>int\<close> that \<^verbatim>\<open>printf\<close> reads there. The effect
  \<open>Store_end_time\<close> records the assignment to the variable \<^verbatim>\<open>end_time\<close> in the event
  loop, so that the history of the deadline can be read off the list of effects.
  \<open>Pselect\<close> and \<open>Nanosleep\<close> carry the timeout argument; \<open>None\<close> is the null pointer,
  which makes \<^verbatim>\<open>pselect\<close> block until the descriptor is readable.
\<close>

datatype fmt_arg = Str string | Chr char | Dec int

datatype effect =
    Printf string "fmt_arg list"
  | XOpenDisplay
  | XkbSelectEvents
  | XkbSetAutoResetControls
  | XkbChangeEnabledControls
  | XAllocNamedColor string
  | XCreateWindow int int int int nat
  | XMapRaised
  | XFlush
  | XUnmapWindow
  | Store_end_time timespec
  | Pselect "timespec option"
  | Nanosleep timespec

subsection \<open>The event loop of \<^verbatim>\<open>main\<close>\<close>

record loop_state =
  visible :: bool
  end_time :: timespec
  effects :: "effect list"

text \<open>
  \<^verbatim>\<open>update_timeout_and_hide\<close>; \<open>now\<close> is what \<^verbatim>\<open>clock_gettime\<close> returns. The result is
  the new value of \<^verbatim>\<open>timeout\<close> and the state.
\<close>

definition update_timeout_and_hide :: "timespec \<Rightarrow> loop_state \<Rightarrow> timespec \<times> loop_state" where
  "update_timeout_and_hide now s =
     (let timeout = timespec_diff now (end_time s)
      in if tv_sec timeout = 0 \<and> tv_nsec timeout = 0
         then (timeout, s\<lparr>visible := False, effects := effects s @ [XUnmapWindow]\<rparr>)
         else (timeout, s))"

text \<open>
  The wait. \<^verbatim>\<open>pselect\<close> fails with \<^verbatim>\<open>EINVAL\<close> when the timeout it is given is not a
  valid \<^verbatim>\<open>timespec\<close> (POSIX); otherwise the environment decides: the call returns (the
  descriptor is readable, or the timeout has elapsed) or fails with some error. The label
  \<^verbatim>\<open>x11select\<close> repeats the call, with the same timeout, for as long as it fails with
  \<^verbatim>\<open>EINTR\<close>; the list holds what the environment answers to the successive calls, and
  \<open>None\<close> says that all of them were interrupted.
\<close>

datatype errno = EINTR | EINVAL | EBADF | ENOMEM

fun errno_value :: "errno \<Rightarrow> int" where
  "errno_value EINTR = 4"
| "errno_value EINVAL = 22"
| "errno_value EBADF = 9"
| "errno_value ENOMEM = 12"

datatype wait_outcome = Returned | Failed errno

definition pselect :: "timespec option \<Rightarrow> wait_outcome \<Rightarrow> wait_outcome" where
  "pselect timeout answer =
     (case timeout of
        None \<Rightarrow> answer
      | Some t \<Rightarrow> if timespec_valid t then answer else Failed EINVAL)"

fun x11select :: "timespec option \<Rightarrow> wait_outcome list \<Rightarrow> wait_outcome option" where
  "x11select timeout [] = None"
| "x11select timeout (answer # answers) =
     (case pselect timeout answer of
        Returned \<Rightarrow> Some Returned
      | Failed e \<Rightarrow> if e = EINTR then x11select timeout answers else Some (Failed e))"

text \<open>
  The events that \<^verbatim>\<open>XNextEvent\<close> delivers: a bell notification, with the clock reading
  taken while it is handled, or any other event.
\<close>

datatype xevent = XkbBellNotify timespec | Other_event

definition process_event :: "timespec \<Rightarrow> loop_state \<Rightarrow> xevent \<Rightarrow> loop_state" where
  "process_event duration s ev =
     (case ev of
        Other_event \<Rightarrow> s
      | XkbBellNotify now \<Rightarrow>
          s\<lparr>visible := True,
            end_time := deadline_after now duration,
            effects := effects s @ [XMapRaised, Store_end_time (deadline_after now duration)]\<rparr>)"

fun drain_events :: "timespec \<Rightarrow> loop_state \<Rightarrow> xevent list \<Rightarrow> loop_state" where
  "drain_events duration s [] = s"
| "drain_events duration s (ev # evs) = drain_events duration (process_event duration s ev) evs"

text \<open>
  One iteration of \<^verbatim>\<open>for (;;)\<close>. The environment of an iteration: the clock reading of
  the check before the wait, the answers to \<^verbatim>\<open>pselect\<close>, the clock reading of the check
  after the wait, and the events pending then.
\<close>

record iter_input =
  clock_before :: timespec
  select_answers :: "wait_outcome list"
  clock_after :: timespec
  pending :: "xevent list"

text \<open>
  What an iteration ends in: the state in which the next iteration begins, the status that
  \<^verbatim>\<open>main\<close> returns, or the wait itself when every call of \<^verbatim>\<open>pselect\<close> so far was
  interrupted. The call of \<^verbatim>\<open>pselect\<close> is recorded once, whatever the number of
  repetitions.
\<close>

datatype loop_result = Next loop_state | Exited nat loop_state | Blocked loop_state

text \<open>
  The statement \<^verbatim>\<open>if (visible) update_timeout_and_hide(...)\<close>, which stands before and
  after the wait; \<open>timeout\<close> is the value the variable has before it.
\<close>

definition check_deadline :: "timespec \<Rightarrow> loop_state \<Rightarrow> timespec \<Rightarrow> timespec \<times> loop_state" where
  "check_deadline timeout s now =
     (if visible s then update_timeout_and_hide now s else (timeout, s))"

definition main_iteration :: "timespec \<Rightarrow> loop_state \<Rightarrow> iter_input \<Rightarrow> loop_result" where
  "main_iteration duration s i =
     (let (timeout, s1) = check_deadline \<lparr>tv_sec = 0, tv_nsec = 0\<rparr> s (clock_before i);
          s2 = s1\<lparr>effects := effects s1 @ [Pselect (Some timeout)]\<rparr>
      in case x11select (Some timeout) (select_answers i) of
           None \<Rightarrow> Blocked s2
         | Some (Failed e) \<Rightarrow>
             Exited 1 (s2\<lparr>effects := effects s2 @
               [Printf ''Error in select() (errno %d)\<newline>'' [Dec (errno_value e)]]\<rparr>)
         | Some Returned \<Rightarrow>
             Next (drain_events duration
                     (snd (check_deadline timeout s2 (clock_after i))) (pending i)))"

text \<open>
  The loop, for as many iterations as there are inputs; \<open>Next\<close> is then the state in
  which the loop goes on.
\<close>

fun event_loop :: "timespec \<Rightarrow> loop_state \<Rightarrow> iter_input list \<Rightarrow> loop_result" where
  "event_loop duration s [] = Next s"
| "event_loop duration s (i # inputs) =
     (case main_iteration duration s i of
        Next s' \<Rightarrow> event_loop duration s' inputs
      | Exited status s' \<Rightarrow> Exited status s'
      | Blocked s' \<Rightarrow> Blocked s')"

text \<open>
  The state in which \<^verbatim>\<open>main\<close> enters the loop: \<^verbatim>\<open>visible = false\<close>, and
  \<^verbatim>\<open>end_time\<close> not initialised, so it may hold any value.
\<close>

definition initial_state :: "timespec \<Rightarrow> loop_state" where
  "initial_state garbage = \<lparr>visible = False, end_time = garbage, effects = []\<rparr>"

text \<open>The states in which an iteration of the loop can begin.\<close>

inductive reachable :: "timespec \<Rightarrow> loop_state \<Rightarrow> bool" for duration :: timespec where
  start: "reachable duration (initial_state garbage)"
| step: "reachable duration s \<Longrightarrow> main_iteration duration s i = Next s' \<Longrightarrow>
         reachable duration s'"

text \<open>
  Whether a deadline has been set since the last hide, read off the history: the last
  effect among the stores to \<^verbatim>\<open>end_time\<close> and the calls of \<^verbatim>\<open>XUnmapWindow\<close> is a
  store.
\<close>

fun deadline_mark :: "bool \<Rightarrow> effect \<Rightarrow> bool" where
  "deadline_mark b (Store_end_time t) = True"
| "deadline_mark b XUnmapWindow = False"
| "deadline_mark b e = b"

definition deadline_pending :: "effect list \<Rightarrow> bool" where
  "deadline_pending history = foldl deadline_mark False history"

definition visibility_invariant :: "loop_state \<Rightarrow> bool" where
  "visibility_invariant s \<longleftrightarrow> (visible s \<longleftrightarrow> deadline_pending (effects s))"

subsection \<open>One-shot mode\<close>

text \<open>
  \<^verbatim>\<open>flash_once_and_exit\<close>. \<open>start\<close> is the clock reading that the deadline is computed
  from, the list holds the readings of the successive iterations of \<^verbatim>\<open>while (visible)\<close>.
  The function ends in \<^verbatim>\<open>exit(0)\<close>: the result is the exit status, the clock reading of
  the iteration that hid the window, and the effects. \<open>Sleeping\<close> says that the readings
  are used up and the program is in \<^verbatim>\<open>nanosleep\<close>.
\<close>

datatype flash_result = Finished nat timespec "effect list" | Sleeping "effect list"

fun flash_wait :: "timespec \<Rightarrow> effect list \<Rightarrow> timespec list \<Rightarrow> flash_result" where
  "flash_wait end_t so_far [] = Sleeping so_far"
| "flash_wait end_t so_far (now # readings) =
     (let timeout = timespec_diff now end_t
      in if tv_sec timeout = 0 \<and> tv_nsec timeout = 0
         then Finished 0 now (so_far @ [XUnmapWindow])
         else flash_wait end_t (so_far @ [Nanosleep timeout]) readings)"

definition flash_once_and_exit :: "timespec \<Rightarrow> timespec \<Rightarrow> timespec list \<Rightarrow> flash_result" where
  "flash_once_and_exit duration start readings =
     flash_wait (deadline_after start duration) [XMapRaised, XFlush] readings"

subsection \<open>Parsing numbers\<close>

text \<open>
  The limits of the C integer types, on a platform where \<^verbatim>\<open>int\<close> has 32 bits and
  \<^verbatim>\<open>long\<close> has 64, and the conversions between them: a value that does not fit is
  reduced modulo \<open>2^32\<close> or \<open>2^64\<close>.
\<close>

definition INT_MAX :: int where "INT_MAX = 2147483647"
definition INT_MIN :: int where "INT_MIN = - 2147483648"
definition UINT_MAX :: int where "UINT_MAX = 4294967295"
definition LONG_MAX :: int where "LONG_MAX = 9223372036854775807"
definition LONG_MIN :: int where "LONG_MIN = - 9223372036854775808"
definition ULONG_MAX :: int where "ULONG_MAX = 18446744073709551615"

definition to_int :: "int \<Rightarrow> int" where
  "to_int v = (v + 2147483648) mod 4294967296 - 2147483648"

definition to_uint :: "int \<Rightarrow> int" where
  "to_uint v = v mod 4294967296"

definition to_long :: "int \<Rightarrow> int" where
  "to_long v = (v + 9223372036854775808) mod 18446744073709551616 - 9223372036854775808"

definition to_ulong :: "int \<Rightarrow> int" where
  "to_ulong v = v mod 18446744073709551616"

text \<open>
  \<^verbatim>\<open>strtol(s, &end, 10)\<close> and \<^verbatim>\<open>strtoul(s, &end, 10)\<close> of the C library: white space,
  an optional sign, decimal digits. The result is the value, the rest of the string that
  \<^verbatim>\<open>end\<close> points to, and whether \<^verbatim>\<open>errno\<close> is set to \<^verbatim>\<open>ERANGE\<close>. Without a digit
  nothing is converted: the value is 0 and \<^verbatim>\<open>end\<close> is \<^verbatim>\<open>s\<close>. \<^verbatim>\<open>strtol\<close> clamps a value
  out of range; \<^verbatim>\<open>strtoul\<close> clamps a magnitude above \<^verbatim>\<open>ULONG_MAX\<close> and negates, in
  \<^verbatim>\<open>unsigned long\<close>, a magnitude that has a minus sign.
\<close>

definition isspace :: "char \<Rightarrow> bool" where
  "isspace c \<longleftrightarrow> c \<in> set [CHR '' '', CHR 0x09, CHR 0x0A, CHR 0x0B, CHR 0x0C, CHR 0x0D]"

definition isdigit :: "char \<Rightarrow> bool" where
  "isdigit c \<longleftrightarrow> c \<in> set ''0123456789''"

definition digits_value :: "string \<Rightarrow> int" where
  "digits_value ds = foldl (\<lambda>acc c. acc * 10 + (of_char c - 48)) 0 ds"

definition scan_sign :: "string \<Rightarrow> bool \<times> string" where
  "scan_sign s =
     (case s of
        [] \<Rightarrow> (False, [])
      | c # cs \<Rightarrow> if c = CHR ''-'' then (True, cs)
                  else if c = CHR ''+'' then (False, cs) else (False, s))"

definition scan_number :: "string \<Rightarrow> (bool \<times> string \<times> string) option" where
  "scan_number s =
     (let (negative, body) = scan_sign (dropWhile isspace s)
      in if takeWhile isdigit body = [] then None
         else Some (negative, takeWhile isdigit body, dropWhile isdigit body))"

definition strtol :: "string \<Rightarrow> int \<times> string \<times> bool" where
  "strtol s =
     (case scan_number s of
        None \<Rightarrow> (0, s, False)
      | Some (negative, ds, rest) \<Rightarrow>
          (let v = (if negative then - digits_value ds else digits_value ds)
           in if v > LONG_MAX then (LONG_MAX, rest, True)
              else if v < LONG_MIN then (LONG_MIN, rest, True)
              else (v, rest, False)))"

definition strtoul :: "string \<Rightarrow> int \<times> string \<times> bool" where
  "strtoul s =
     (case scan_number s of
        None \<Rightarrow> (0, s, False)
      | Some (negative, ds, rest) \<Rightarrow>
          if digits_value ds > ULONG_MAX then (ULONG_MAX, rest, True)
          else (if negative then to_ulong (- digits_value ds) else digits_value ds, rest, False))"

text \<open>
  \<^verbatim>\<open>parse_long\<close> and \<^verbatim>\<open>parse_ulong\<close>. The C functions return \<^verbatim>\<open>true\<close> on failure and
  store the value through a pointer otherwise; here \<open>None\<close> is the failure. In
  \<^verbatim>\<open>parse_ulong\<close> the result of \<^verbatim>\<open>strtoul\<close> is stored in a \<^verbatim>\<open>long\<close> first and in the
  \<^verbatim>\<open>unsigned long\<close> of the caller afterwards.
\<close>

definition parse_long :: "string \<Rightarrow> int option" where
  "parse_long s =
     (case strtol s of (parsed, end_p, erange) \<Rightarrow>
        if erange \<and> (parsed = LONG_MAX \<or> parsed = LONG_MIN) then None
        else if end_p \<noteq> [] then None
        else Some parsed)"

definition parse_ulong :: "string \<Rightarrow> int option" where
  "parse_ulong s =
     (case strtoul s of (value, end_p, erange) \<Rightarrow>
        (let parsed = to_long value
         in if erange \<and> (parsed = LONG_MAX \<or> parsed < 0) then None
            else if end_p \<noteq> [] then None
            else Some (to_ulong parsed)))"

subsection \<open>The command line\<close>

text \<open>
  The globals \<^verbatim>\<open>bell\<close> and \<^verbatim>\<open>flash_once\<close> with their initial values; a colour that is
  \<^verbatim>\<open>NULL\<close> is \<open>None\<close>.
\<close>

record config =
  bell_x :: int
  bell_y :: int
  bell_w :: int
  bell_h :: int
  bell_duration :: int
  bell_color :: "string option"
  flash_once :: bool

definition initial_config :: config where
  "initial_config =
     \<lparr>bell_x = 0, bell_y = 0, bell_w = - 1, bell_h = - 1, bell_duration = 100,
      bell_color = None, flash_once = False\<rparr>"

definition print_usage :: "string \<Rightarrow> effect" where
  "print_usage argv0 =
     Printf ''Usage: %s [-h <height>] [-w <width] [-x <x position>] [-y <y position>] [-c <colour name>]\<newline>''
       [Str argv0]"

text \<open>
  The body of the \<^verbatim>\<open>switch\<close> in \<^verbatim>\<open>parse_args\<close>, for one result of \<^verbatim>\<open>getopt_long\<close>:
  the option character (0 for \<^verbatim>\<open>--help\<close>, \<^verbatim>\<open>?\<close> for what \<^verbatim>\<open>getopt_long\<close> rejects) and
  \<^verbatim>\<open>optarg\<close>. \<open>Inl\<close> is a call of \<^verbatim>\<open>exit\<close>, with what was printed before and the status.
  \<^verbatim>\<open>strdup\<close> is taken to succeed. The messages about the maximum width and height pass
  \<^verbatim>\<open>UINT_MAX\<close>, an \<^verbatim>\<open>unsigned int\<close>, to \<^verbatim>\<open>%d\<close>, which reads it as an \<^verbatim>\<open>int\<close>.
\<close>

definition handle_option :: "string \<Rightarrow> config \<Rightarrow> char \<times> string \<Rightarrow> (effect list \<times> nat) + config" where
  "handle_option argv0 cfg opt =
     (case opt of (option, optarg) \<Rightarrow>
        if option = CHR 0x00 then Inl ([print_usage argv0], 0)
        else if option = CHR ''w'' then
          (case parse_long optarg of
             None \<Rightarrow> Inl ([Printf ''Invalid width %s\<newline>'' [Str optarg]], 1)
           | Some tmp \<Rightarrow>
               if tmp > UINT_MAX
               then Inl ([Printf ''Invalid width. The maximum width is %d\<newline>'' [Dec (to_int UINT_MAX)]], 1)
               else if tmp < 0 then Inr (cfg\<lparr>bell_w := - 1\<rparr>)
               else Inr (cfg\<lparr>bell_w := tmp\<rparr>))
        else if option = CHR ''h'' then
          (case parse_long optarg of
             None \<Rightarrow> Inl ([Printf ''Invalid height %s\<newline>'' [Str optarg]], 1)
           | Some tmp \<Rightarrow>
               if tmp > UINT_MAX
               then Inl ([Printf ''Invalid height. The maximum height is %d\<newline>'' [Dec (to_int UINT_MAX)]], 1)
               else if tmp < 0 then Inr (cfg\<lparr>bell_h := - 1\<rparr>)
               else Inr (cfg\<lparr>bell_h := tmp\<rparr>))
        else if option = CHR ''x'' then
          (case parse_long optarg of
             None \<Rightarrow> Inl ([Printf ''Invalid x position %s\<newline>'' [Str optarg]], 1)
           | Some tmp \<Rightarrow>
               if tmp < INT_MIN \<or> tmp > INT_MAX
               then Inl ([Printf ''Invalid x. Must be an integer in the range (%d, %d)\<newline>''
                            [Dec INT_MIN, Dec INT_MAX]], 1)
               else Inr (cfg\<lparr>bell_x := to_int tmp\<rparr>))
        else if option = CHR ''y'' then
          (case parse_long optarg of
             None \<Rightarrow> Inl ([Printf ''Invalid y position %s\<newline>'' [Str optarg]], 1)
           | Some tmp \<Rightarrow>
               if tmp < INT_MIN \<or> tmp > INT_MAX
               then Inl ([Printf ''Invalid y. Must be an integer in the range (%d, %d)\<newline>''
                            [Dec INT_MIN, Dec INT_MAX]], 1)
               else Inr (cfg\<lparr>bell_y := to_int tmp\<rparr>))
        else if option = CHR ''c'' then Inr (cfg\<lparr>bell_color := Some optarg\<rparr>)
        else if option = CHR ''d'' then
          (case parse_ulong optarg of
             None \<Rightarrow>
               Inl ([Printf ''Invalid duration %s. Should be a non-negative number of milliseconds.\<newline>''
                       [Str optarg]], 1)
           | Some v \<Rightarrow> Inr (cfg\<lparr>bell_duration := v\<rparr>))
        else if option = CHR ''f'' then Inr (cfg\<lparr>flash_once := True\<rparr>)
        else if option \<noteq> CHR ''?''
        then Inl ([Printf ''Invalid option %c\<newline>'' [Chr option], print_usage argv0], 1)
        else Inl ([print_usage argv0], 1))"

text \<open>
  \<^verbatim>\<open>parse_args\<close>: the loop over the results of \<^verbatim>\<open>getopt_long\<close>, in the order of the
  command line.
\<close>

fun parse_args :: "string \<Rightarrow> config \<Rightarrow> (char \<times> string) list \<Rightarrow> (effect list \<times> nat) + config" where
  "parse_args argv0 cfg [] = Inr cfg"
| "parse_args argv0 cfg (opt # opts) =
     (case handle_option argv0 cfg opt of
        Inl stop \<Rightarrow> Inl stop
      | Inr cfg' \<Rightarrow> parse_args argv0 cfg' opts)"

subsection \<open>Setting up the window\<close>

text \<open>
  What the X server and the Xkb library answer: whether \<^verbatim>\<open>XOpenDisplay\<close> returns a
  display, whether \<^verbatim>\<open>XkbLibraryVersion\<close> and \<^verbatim>\<open>XkbQueryExtension\<close> succeed, the value
  of \<^verbatim>\<open>WhitePixel\<close>, the pixel that \<^verbatim>\<open>XAllocNamedColor\<close> finds for a name (\<open>None\<close> when
  it returns 0), and \<^verbatim>\<open>DisplayWidth\<close> and \<^verbatim>\<open>DisplayHeight\<close>.
\<close>

record xserver =
  display_available :: bool
  xkb_library_ok :: bool
  xkb_extension_ok :: bool
  white_pixel :: nat
  named_color :: "string \<Rightarrow> nat option"
  display_width :: int
  display_height :: int

text \<open>
  \<^verbatim>\<open>strncmp(s1, s2, n) == 0\<close> on strings without a NUL character inside: the first \<open>n\<close>
  characters agree, and where one string ends before that the other one ends too.
\<close>

definition strncmp_equal :: "string \<Rightarrow> string \<Rightarrow> nat \<Rightarrow> bool" where
  "strncmp_equal s1 s2 n \<longleftrightarrow> take n s1 = take n s2"

text \<open>
  The background colour: the effects, and the pixel or the status of \<^verbatim>\<open>exit\<close>.
\<close>

definition background_pixel :: "xserver \<Rightarrow> string option \<Rightarrow> effect list \<times> (nat + nat)" where
  "background_pixel xs color =
     (case color of
        None \<Rightarrow> ([], Inr (white_pixel xs))
      | Some name \<Rightarrow>
          if strncmp_equal name ''white'' 5 then ([], Inr (white_pixel xs))
          else (case named_color xs name of
                  None \<Rightarrow>
                    ([XAllocNamedColor name,
                      Printf ''Colour %s isn't supported\<newline>'' [Str name]], Inl 1)
                | Some pixel \<Rightarrow> ([XAllocNamedColor name], Inr pixel)))"

text \<open>
  \<^verbatim>\<open>int width = bell.w < 0 ? DisplayWidth(display, screen) : bell.w\<close>, and the same for
  the height. \<^verbatim>\<open>XCreateWindow\<close> takes both as \<^verbatim>\<open>unsigned int\<close>.
\<close>

definition window_width :: "xserver \<Rightarrow> config \<Rightarrow> int" where
  "window_width xs cfg = to_int (if bell_w cfg < 0 then display_width xs else bell_w cfg)"

definition window_height :: "xserver \<Rightarrow> config \<Rightarrow> int" where
  "window_height xs cfg = to_int (if bell_h cfg < 0 then display_height xs else bell_h cfg)"

text \<open>
  \<^verbatim>\<open>main\<close> up to the creation of the window: the effects, and the status the program
  ends with or the configuration it goes on with.
\<close>

definition connect_effects :: "effect list" where
  "connect_effects =
     [XOpenDisplay, XkbSelectEvents, XkbSetAutoResetControls, XkbChangeEnabledControls]"

definition main_setup :: "xserver \<Rightarrow> string \<Rightarrow> (char \<times> string) list \<Rightarrow> effect list \<times> (nat + config)" where
  "main_setup xs argv0 opts =
     (case parse_args argv0 initial_config opts of
        Inl (printed, status) \<Rightarrow> (printed, Inl status)
      | Inr cfg \<Rightarrow>
          if \<not> display_available xs
          then ([XOpenDisplay, Printf ''Error opening display\<newline>'' []], Inl 1)
          else if \<not> xkb_library_ok xs
          then ([XOpenDisplay,
                 Printf ''X server doesn't support Xkb extension\<newline>'' []], Inl 1)
          else if \<not> xkb_extension_ok xs
          then ([XOpenDisplay,
                 Printf ''X server has wrong version of Xkb extension (try rebuilding xvisbell)\<newline>'' []],
                Inl 1)
          else (case background_pixel xs (bell_color cfg) of
                  (looked_up, Inl status) \<Rightarrow> (connect_effects @ looked_up, Inl status)
                | (looked_up, Inr pixel) \<Rightarrow>
                    (connect_effects @ looked_up @
                       [XCreateWindow (bell_x cfg) (bell_y cfg)
                          (to_uint (window_width xs cfg)) (to_uint (window_height xs cfg)) pixel],
                     Inr cfg)))"

text \<open>
  The whole of \<^verbatim>\<open>main\<close>. \<open>start\<close> and \<open>readings\<close> are the clock readings of one-shot
  mode, \<open>garbage\<close> and \<open>inputs\<close> the initial value of \<^verbatim>\<open>end_time\<close> and the environment of
  the iterations of the event loop. The result is the effects and the exit status, or
  \<open>None\<close> while the program is still running after the inputs given.
\<close>

definition main :: "xserver \<Rightarrow> string \<Rightarrow> (char \<times> string) list \<Rightarrow> timespec \<Rightarrow> timespec list \<Rightarrow>
    timespec \<Rightarrow> iter_input list \<Rightarrow> effect list \<times> nat option" where
  "main xs argv0 opts start readings garbage inputs =
     (case main_setup xs argv0 opts of
        (so_far, Inl status) \<Rightarrow> (so_far, Some status)
      | (so_far, Inr cfg) \<Rightarrow>
          if flash_once cfg
          then (case flash_once_and_exit (duration_of (bell_duration cfg)) start readings of
                  Finished status now flashed \<Rightarrow> (so_far @ flashed, Some status)
                | Sleeping flashed \<Rightarrow> (so_far @ flashed, None))
          else (case event_loop (duration_of (bell_duration cfg)) (initial_state garbage) inputs of
                  Next s \<Rightarrow> (so_far @ effects s, None)
                | Exited status s \<Rightarrow> (so_far @ effects s, Some status)
                | Blocked s \<Rightarrow> (so_far @ effects s, None)))"

subsection \<open>Notions used in the statements\<close>

text \<open>
  The size that the command line supplies for an option: the number of its last
  occurrence, \<open>- 1\<close> (the default of \<^verbatim>\<open>bell.w\<close> and \<^verbatim>\<open>bell.h\<close>) when there is none.
\<close>

definition size_step :: "char \<Rightarrow> int \<Rightarrow> char \<times> string \<Rightarrow> int" where
  "size_step c v opt =
     (if fst opt = c then (case parse_long (snd opt) of Some tmp \<Rightarrow> tmp | None \<Rightarrow> v) else v)"

definition supplied_size :: "char \<Rightarrow> (char \<times> string) list \<Rightarrow> int" where
  "supplied_size c opts = foldl (size_step c) (- 1) opts"

definition same_size :: "int \<Rightarrow> int \<Rightarrow> bool" where
  "same_size a b \<longleftrightarrow> (a < 0 \<and> b < 0) \<or> a = b"

text \<open>
  The integer that a text denotes when it is a numeral: white space, an optional sign,
  digits, and nothing after them. It is not bounded.
\<close>

definition numeral_value :: "string \<Rightarrow> int option" where
  "numeral_value s =
     (case scan_number s of
        None \<Rightarrow> None
      | Some (negative, ds, rest) \<Rightarrow>
          if rest = [] then Some (if negative then - digits_value ds else digits_value ds)
          else None)"

text \<open>
  The arguments of the numeric options that the program refuses, and why. \<open>Unreadable\<close>:
  the text is not empty and not a numeral, or it is a numeral that does not fit the type
  it is read into, \<^verbatim>\<open>long\<close> for a size or a position and \<^verbatim>\<open>unsigned long\<close> (by its
  magnitude) for the duration. \<open>Out_of_range\<close>: the text is read, and the number is above
  \<^verbatim>\<open>UINT_MAX\<close> for a size or outside \<^verbatim>\<open>int\<close> for a position.
\<close>

datatype rejection = Unreadable | Out_of_range

definition rejection_of :: "char \<Rightarrow> string \<Rightarrow> rejection option" where
  "rejection_of option optarg =
     (case numeral_value optarg of
        None \<Rightarrow> if optarg \<noteq> [] \<and> option \<in> set ''whxyd'' then Some Unreadable else None
      | Some v \<Rightarrow>
          if option = CHR ''w'' \<or> option = CHR ''h'' then
            (if v > LONG_MAX \<or> v < LONG_MIN then Some Unreadable
             else if v > UINT_MAX then Some Out_of_range
             else None)
          else if option = CHR ''x'' \<or> option = CHR ''y'' then
            (if v > LONG_MAX \<or> v < LONG_MIN then Some Unreadable
             else if v < INT_MIN \<or> v > INT_MAX then Some Out_of_range
             else None)
          else if option = CHR ''d'' then
            (if v > ULONG_MAX \<or> v < - ULONG_MAX then Some Unreadable else None)
          else None)"

text \<open>
  The message that belongs to an option and a reason, and its arguments: the text itself
  when it is unreadable, the two bounds of \<^verbatim>\<open>int\<close> for a position out of range. For a
  size out of range the message has one argument, and nothing is said about its value.
\<close>

definition rejection_format :: "char \<Rightarrow> rejection \<Rightarrow> string" where
  "rejection_format option r =
     (case r of
        Unreadable \<Rightarrow>
          if option = CHR ''w'' then ''Invalid width %s\<newline>''
          else if option = CHR ''h'' then ''Invalid height %s\<newline>''
          else if option = CHR ''x'' then ''Invalid x position %s\<newline>''
          else if option = CHR ''y'' then ''Invalid y position %s\<newline>''
          else ''Invalid duration %s. Should be a non-negative number of milliseconds.\<newline>''
      | Out_of_range \<Rightarrow>
          if option = CHR ''w'' then ''Invalid width. The maximum width is %d\<newline>''
          else if option = CHR ''h'' then ''Invalid height. The maximum height is %d\<newline>''
          else if option = CHR ''x''
          then ''Invalid x. Must be an integer in the range (%d, %d)\<newline>''
          else ''Invalid y. Must be an integer in the range (%d, %d)\<newline>'')"

definition rejection_args :: "char \<Rightarrow> rejection \<Rightarrow> string \<Rightarrow> fmt_arg list \<Rightarrow> bool" where
  "rejection_args option r optarg args \<longleftrightarrow>
     (case r of
        Unreadable \<Rightarrow> args = [Str optarg]
      | Out_of_range \<Rightarrow>
          if option = CHR ''x'' \<or> option = CHR ''y'' then args = [Dec INT_MIN, Dec INT_MAX]
          else length args = 1)"

text \<open>A server to run the program against: a screen of 1920 by 1080 and two colours.\<close>

definition example_server :: xserver where
  "example_server =
     \<lparr>display_available = True, xkb_library_ok = True, xkb_extension_ok = True,
      white_pixel = 16777215,
      named_color = [''red'' \<mapsto> 16711680, ''whitesmoke'' \<mapsto> 16119285],
      display_width = 1920, display_height = 1080\<rparr>"

section \<open>Properties\<close>

subsection \<open>Time arithmetic\<close>

text \<open>
  On two valid time values \<^verbatim>\<open>timespec_diff\<close> is the exact difference, cut off at zero.
\<close>

lemma timespec_diff_exact:
  assumes "0 \<le> tv_nsec now" "tv_nsec now < 1000000000"
    and "0 \<le> tv_nsec deadline" "tv_nsec deadline < 1000000000"
  shows "to_ns (timespec_diff now deadline) = max 0 (to_ns deadline - to_ns now)"
  using assms by (auto simp: timespec_diff_def to_ns_def max_def)

text \<open>
  When only the clock reading is valid and the nanoseconds of the deadline are not
  negative, the result is not negative, it is never more than what remains, and it is zero
  once the deadline has passed.
\<close>

lemma timespec_diff_nonneg:
  assumes "0 \<le> tv_nsec now" "tv_nsec now < 1000000000" "0 \<le> tv_nsec deadline"
  shows "0 \<le> tv_sec (timespec_diff now deadline) \<and> 0 \<le> tv_nsec (timespec_diff now deadline)"
  using assms by (auto simp: timespec_diff_def)

lemma timespec_diff_le_remaining:
  assumes "0 \<le> tv_nsec now" "tv_nsec now < 1000000000" "0 \<le> tv_nsec deadline"
  shows "to_ns (timespec_diff now deadline) \<le> max 0 (to_ns deadline - to_ns now)"
  using assms by (auto simp: timespec_diff_def to_ns_def max_def)

lemma timespec_diff_zero_when_passed:
  assumes "0 \<le> tv_nsec now" "tv_nsec now < 1000000000" "0 \<le> tv_nsec deadline"
    and "to_ns deadline \<le> to_ns now"
  shows "timespec_diff now deadline = \<lparr>tv_sec = 0, tv_nsec = 0\<rparr>"
  using assms by (auto simp: timespec_diff_def to_ns_def)

lemma deadline_after_ns: "to_ns (deadline_after now duration) = to_ns now + to_ns duration"
  by (simp add: deadline_after_def to_ns_def)

text \<open>
  C5. For every pair of a clock reading and a deadline the remaining wait is zero when the
  deadline has been reached and exactly the difference otherwise. The deadline that a bell
  at 10.95 s sets for a flash of 100 ms is stored as 10 s and 1050000000 ns; at the clock
  reading 11.0 s, 50 ms before it, the computed wait is zero.
\<close>

theorem timespec_diff_early_zero:
  "timespec_diff \<lparr>tv_sec = 11, tv_nsec = 0\<rparr>
     (deadline_after \<lparr>tv_sec = 10, tv_nsec = 950000000\<rparr> (duration_of 100))
     = \<lparr>tv_sec = 0, tv_nsec = 0\<rparr> \<and>
   to_ns (deadline_after \<lparr>tv_sec = 10, tv_nsec = 950000000\<rparr> (duration_of 100))
     - to_ns \<lparr>tv_sec = 11, tv_nsec = 0\<rparr> = 50000000"
  by (simp add: timespec_diff_def deadline_after_def duration_of_def to_ns_def)

subsection \<open>The event loop\<close>

text \<open>
  C1. While the window is hidden the wait of an iteration is unbounded. An iteration that
  starts in the hidden state passes a timeout of zero to \<^verbatim>\<open>pselect\<close>, not the null
  pointer, and when nothing is pending it ends in the state it started in.
\<close>

theorem hidden_iteration_polls:
  "main_iteration duration \<lparr>visible = False, end_time = e, effects = history\<rparr>
     \<lparr>clock_before = c1, select_answers = [Returned], clock_after = c2, pending = []\<rparr>
   = Next \<lparr>visible = False, end_time = e,
            effects = history @ [Pselect (Some \<lparr>tv_sec = 0, tv_nsec = 0\<rparr>)]\<rparr>"
  by (simp add: main_iteration_def check_deadline_def pselect_def timespec_valid_def)

lemma deadline_pending_append [simp]:
  "deadline_pending (history @ [e]) = deadline_mark (deadline_pending history) e"
  by (simp add: deadline_pending_def)

lemma update_timeout_and_hide_invariant:
  "visibility_invariant s \<Longrightarrow> visibility_invariant (snd (update_timeout_and_hide now s))"
  by (simp add: update_timeout_and_hide_def visibility_invariant_def Let_def)

lemma check_deadline_invariant:
  "visibility_invariant s \<Longrightarrow> visibility_invariant (snd (check_deadline t s now))"
  by (simp add: check_deadline_def update_timeout_and_hide_invariant)

lemma process_event_invariant:
  "visibility_invariant s \<Longrightarrow> visibility_invariant (process_event d s ev)"
  by (cases ev) (simp_all add: process_event_def visibility_invariant_def deadline_pending_def)

lemma drain_events_invariant:
  "visibility_invariant s \<Longrightarrow> visibility_invariant (drain_events d s evs)"
  by (induction evs arbitrary: s) (simp_all add: process_event_invariant)

lemma pselect_effect_invariant:
  "visibility_invariant s \<Longrightarrow> visibility_invariant (s\<lparr>effects := effects s @ [Pselect t]\<rparr>)"
  by (simp add: visibility_invariant_def)

lemma main_iteration_invariant:
  assumes "visibility_invariant s" and "main_iteration d s i = Next s'"
  shows "visibility_invariant s'"
proof -
  obtain timeout s1
    where c: "check_deadline \<lparr>tv_sec = 0, tv_nsec = 0\<rparr> s (clock_before i) = (timeout, s1)"
    by (cases "check_deadline \<lparr>tv_sec = 0, tv_nsec = 0\<rparr> s (clock_before i)")
  have "visibility_invariant s1"
    using check_deadline_invariant [OF assms(1), of "\<lparr>tv_sec = 0, tv_nsec = 0\<rparr>" "clock_before i"] c
    by simp
  then have s2: "visibility_invariant (s1\<lparr>effects := effects s1 @ [Pselect (Some timeout)]\<rparr>)"
    by (rule pselect_effect_invariant)
  from assms(2) c have "s' = drain_events d
      (snd (check_deadline timeout (s1\<lparr>effects := effects s1 @ [Pselect (Some timeout)]\<rparr>)
         (clock_after i))) (pending i)"
    by (auto simp: main_iteration_def Let_def split: option.splits wait_outcome.splits)
  with s2 show ?thesis
    by (simp add: drain_events_invariant check_deadline_invariant)
qed

lemma initial_state_invariant: "visibility_invariant (initial_state garbage)"
  by (simp add: initial_state_def visibility_invariant_def deadline_pending_def)

text \<open>
  C2. In every state that the event loop reaches, the visibility flag is true if and only
  if a deadline has been set since the last hide; the deadline check (before and after the
  wait) and the processing of an event preserve this.
\<close>

theorem visible_iff_deadline_pending:
  "(reachable d s \<longrightarrow> visibility_invariant s) \<and>
   (visibility_invariant s \<longrightarrow> visibility_invariant (snd (check_deadline t s now))) \<and>
   (visibility_invariant s \<longrightarrow> visibility_invariant (process_event d s ev))"
proof (intro conjI impI)
  assume "reachable d s"
  then show "visibility_invariant s"
    by (induction rule: reachable.induct)
       (simp_all add: initial_state_invariant main_iteration_invariant)
qed (simp_all add: check_deadline_invariant process_event_invariant)

theorem visible_iff_deadline_pending_witness:
  "reachable (duration_of 100)
     \<lparr>visible = True, end_time = \<lparr>tv_sec = 10, tv_nsec = 600000000\<rparr>,
      effects = [Pselect (Some \<lparr>tv_sec = 0, tv_nsec = 0\<rparr>), XMapRaised,
                 Store_end_time \<lparr>tv_sec = 10, tv_nsec = 600000000\<rparr>]\<rparr> \<and>
   visibility_invariant
     \<lparr>visible = True, end_time = \<lparr>tv_sec = 10, tv_nsec = 600000000\<rparr>,
      effects = [Pselect (Some \<lparr>tv_sec = 0, tv_nsec = 0\<rparr>), XMapRaised,
                 Store_end_time \<lparr>tv_sec = 10, tv_nsec = 600000000\<rparr>]\<rparr> \<and>
   visibility_invariant (snd (check_deadline \<lparr>tv_sec = 0, tv_nsec = 0\<rparr>
     \<lparr>visible = True, end_time = \<lparr>tv_sec = 10, tv_nsec = 600000000\<rparr>,
      effects = [Pselect (Some \<lparr>tv_sec = 0, tv_nsec = 0\<rparr>), XMapRaised,
                 Store_end_time \<lparr>tv_sec = 10, tv_nsec = 600000000\<rparr>]\<rparr>
     \<lparr>tv_sec = 10, tv_nsec = 600000000\<rparr>)) \<and>
   \<not> visible (snd (check_deadline \<lparr>tv_sec = 0, tv_nsec = 0\<rparr>
     \<lparr>visible = True, end_time = \<lparr>tv_sec = 10, tv_nsec = 600000000\<rparr>,
      effects = [Pselect (Some \<lparr>tv_sec = 0, tv_nsec = 0\<rparr>), XMapRaised,
                 Store_end_time \<lparr>tv_sec = 10, tv_nsec = 600000000\<rparr>]\<rparr>
     \<lparr>tv_sec = 10, tv_nsec = 600000000\<rparr>))"
proof -
  let ?s = "\<lparr>visible = True, end_time = \<lparr>tv_sec = 10, tv_nsec = 600000000\<rparr>,
      effects = [Pselect (Some \<lparr>tv_sec = 0, tv_nsec = 0\<rparr>), XMapRaised,
                 Store_end_time \<lparr>tv_sec = 10, tv_nsec = 600000000\<rparr>]\<rparr>"
  let ?t = "\<lparr>tv_sec = 10, tv_nsec = 500000000\<rparr>"
  have it: "main_iteration (duration_of 100) (initial_state \<lparr>tv_sec = 0, tv_nsec = 0\<rparr>)
      \<lparr>clock_before = ?t, select_answers = [Returned], clock_after = ?t,
       pending = [XkbBellNotify ?t]\<rparr> = Next ?s"
    by (simp add: main_iteration_def check_deadline_def initial_state_def pselect_def
        timespec_valid_def process_event_def deadline_after_def duration_of_def)
  have r: "reachable (duration_of 100) ?s"
    by (rule reachable.step [OF reachable.start it])
  note inv = visible_iff_deadline_pending [of "duration_of 100" ?s "\<lparr>tv_sec = 0, tv_nsec = 0\<rparr>"
      "\<lparr>tv_sec = 10, tv_nsec = 600000000\<rparr>" Other_event]
  from inv r have i: "visibility_invariant ?s" by blast
  with inv have c: "visibility_invariant (snd (check_deadline \<lparr>tv_sec = 0, tv_nsec = 0\<rparr> ?s
      \<lparr>tv_sec = 10, tv_nsec = 600000000\<rparr>))" by blast
  have h: "\<not> visible (snd (check_deadline \<lparr>tv_sec = 0, tv_nsec = 0\<rparr> ?s
      \<lparr>tv_sec = 10, tv_nsec = 600000000\<rparr>))"
    by (simp add: check_deadline_def update_timeout_and_hide_def timespec_diff_def Let_def)
  from r i c h show ?thesis by blast
qed

text \<open>
  What a bell does to the state: the window is visible, the deadline is the clock reading
  plus the duration, field by field, and the instant it denotes is their sum.
\<close>

lemma bell_sets_deadline:
  "visible (process_event d s (XkbBellNotify t)) \<and>
   end_time (process_event d s (XkbBellNotify t)) = deadline_after t d \<and>
   to_ns (end_time (process_event d s (XkbBellNotify t))) = to_ns t + to_ns d \<and>
   effects (process_event d s (XkbBellNotify t))
     = effects s @ [XMapRaised, Store_end_time (deadline_after t d)]"
  by (simp add: process_event_def deadline_after_ns)

text \<open>
  A deadline whose nanoseconds are below one second is honoured: a check at a clock
  reading before it changes nothing.
\<close>

lemma retrigger_survives_valid_deadline:
  assumes "visible s" and "tv_nsec (end_time s) < 1000000000"
    and "0 \<le> tv_nsec now" "tv_nsec now < 1000000000"
    and "to_ns now < to_ns (end_time s)"
  shows "snd (check_deadline timeout s now) = s"
proof -
  have "to_ns (timespec_diff now (end_time s)) \<noteq> 0"
    using assms by (auto simp: timespec_diff_def to_ns_def)
  then have "\<not> (tv_sec (timespec_diff now (end_time s)) = 0 \<and>
      tv_nsec (timespec_diff now (end_time s)) = 0)"
    by (auto simp: to_ns_def)
  with assms(1) show ?thesis
    by (simp add: check_deadline_def update_timeout_and_hide_def Let_def)
qed

text \<open>
  C3. A bell that arrives while the window is visible leaves it visible and replaces the
  deadline by its own clock reading plus the duration, and the window is not hidden at
  the original deadline. With a flash of 100 ms, a bell at 10.9 s sets the deadline 11.0 s
  and a second one at 10.95 s replaces it by 11.05 s, stored as 10 s and 1050000000 ns.
  An iteration that an unrelated event wakes at 11.0 s, the original deadline, hides the
  window.
\<close>

theorem retrigger_hidden_at_original_deadline:
  "event_loop (duration_of 100) (initial_state garbage)
     [\<lparr>clock_before = \<lparr>tv_sec = 10, tv_nsec = 900000000\<rparr>, select_answers = [Returned],
       clock_after = \<lparr>tv_sec = 10, tv_nsec = 900000000\<rparr>,
       pending = [XkbBellNotify \<lparr>tv_sec = 10, tv_nsec = 900000000\<rparr>]\<rparr>,
      \<lparr>clock_before = \<lparr>tv_sec = 10, tv_nsec = 900001000\<rparr>, select_answers = [Returned],
       clock_after = \<lparr>tv_sec = 10, tv_nsec = 950000000\<rparr>,
       pending = [XkbBellNotify \<lparr>tv_sec = 10, tv_nsec = 950000000\<rparr>]\<rparr>,
      \<lparr>clock_before = \<lparr>tv_sec = 10, tv_nsec = 950001000\<rparr>, select_answers = [Returned],
       clock_after = \<lparr>tv_sec = 11, tv_nsec = 0\<rparr>, pending = [Other_event]\<rparr>]
   = Next
      \<lparr>visible = False, end_time = \<lparr>tv_sec = 10, tv_nsec = 1050000000\<rparr>,
       effects =
         [Pselect (Some \<lparr>tv_sec = 0, tv_nsec = 0\<rparr>), XMapRaised,
          Store_end_time \<lparr>tv_sec = 10, tv_nsec = 1000000000\<rparr>,
          Pselect (Some \<lparr>tv_sec = 0, tv_nsec = 99999000\<rparr>), XMapRaised,
          Store_end_time \<lparr>tv_sec = 10, tv_nsec = 1050000000\<rparr>,
          Pselect (Some \<lparr>tv_sec = 0, tv_nsec = 99999000\<rparr>), XUnmapWindow]\<rparr> \<and>
   to_ns \<lparr>tv_sec = 10, tv_nsec = 1000000000\<rparr> = to_ns \<lparr>tv_sec = 11, tv_nsec = 0\<rparr> \<and>
   to_ns \<lparr>tv_sec = 11, tv_nsec = 0\<rparr> < to_ns \<lparr>tv_sec = 10, tv_nsec = 1050000000\<rparr>"
  by (simp add: main_iteration_def check_deadline_def update_timeout_and_hide_def
      timespec_diff_def initial_state_def pselect_def timespec_valid_def process_event_def
      deadline_after_def duration_of_def to_ns_def Let_def)

text \<open>
  C4. The event loop never ends, whatever the bells, timeouts and clock readings, also
  for a deadline whose nanoseconds are the sum of the duration's and the clock's. With a
  flash of 1500 ms and a bell at 10.999999 s the deadline is stored as 11 s and
  1499999000 ns; the next iteration, at 11.000001 s, computes a timeout of 1499998000 ns,
  which \<^verbatim>\<open>pselect\<close> refuses, and \<^verbatim>\<open>main\<close> returns 1.
\<close>

theorem event_loop_exits_on_carried_deadline:
  "event_loop (duration_of 1500) (initial_state garbage)
     [\<lparr>clock_before = \<lparr>tv_sec = 10, tv_nsec = 999999000\<rparr>, select_answers = [Returned],
       clock_after = \<lparr>tv_sec = 10, tv_nsec = 999999000\<rparr>,
       pending = [XkbBellNotify \<lparr>tv_sec = 10, tv_nsec = 999999000\<rparr>]\<rparr>,
      \<lparr>clock_before = \<lparr>tv_sec = 11, tv_nsec = 1000\<rparr>, select_answers = [Returned],
       clock_after = \<lparr>tv_sec = 11, tv_nsec = 2000\<rparr>, pending = []\<rparr>]
   = Exited 1
      \<lparr>visible = True, end_time = \<lparr>tv_sec = 11, tv_nsec = 1499999000\<rparr>,
       effects =
         [Pselect (Some \<lparr>tv_sec = 0, tv_nsec = 0\<rparr>), XMapRaised,
          Store_end_time \<lparr>tv_sec = 11, tv_nsec = 1499999000\<rparr>,
          Pselect (Some \<lparr>tv_sec = 0, tv_nsec = 1499998000\<rparr>),
          Printf ''Error in select() (errno %d)\<newline>'' [Dec 22]]\<rparr>"
  by (simp add: main_iteration_def check_deadline_def update_timeout_and_hide_def
      timespec_diff_def initial_state_def pselect_def timespec_valid_def process_event_def
      deadline_after_def duration_of_def Let_def)

subsection \<open>One-shot mode\<close>

text \<open>
  C6. In one-shot mode the window is shown, the program sleeps until the deadline, the
  start plus the duration, is reached, hides the window and exits with status 0; with a
  duration of 100 ms the window stays mapped for at least 100 ms. When the flash starts at
  10.999999 s the deadline is stored as 10 s and 1099999000 ns, and the first iteration,
  at 11.000005 s, hides the window and exits: 6000 ns after the start, without a sleep.
\<close>

theorem flash_once_hides_early:
  "flash_once_and_exit (duration_of 100) \<lparr>tv_sec = 10, tv_nsec = 999999000\<rparr>
     [\<lparr>tv_sec = 11, tv_nsec = 5000\<rparr>]
   = Finished 0 \<lparr>tv_sec = 11, tv_nsec = 5000\<rparr> [XMapRaised, XFlush, XUnmapWindow] \<and>
   to_ns \<lparr>tv_sec = 11, tv_nsec = 5000\<rparr> - to_ns \<lparr>tv_sec = 10, tv_nsec = 999999000\<rparr> = 6000 \<and>
   to_ns (duration_of 100) = 100000000"
  by (simp add: flash_once_and_exit_def timespec_diff_def deadline_after_def duration_of_def
      to_ns_def)

subsection \<open>The command line\<close>

text \<open>
  \<^verbatim>\<open>handle_option\<close> option by option.
\<close>

lemma handle_help: "handle_option argv0 cfg (CHR 0x00, a) = Inl ([print_usage argv0], 0)"
  by (simp add: handle_option_def)

lemma handle_w: "handle_option argv0 cfg (CHR ''w'', a) =
  (case parse_long a of
     None \<Rightarrow> Inl ([Printf ''Invalid width %s\<newline>'' [Str a]], 1)
   | Some tmp \<Rightarrow>
       if tmp > UINT_MAX
       then Inl ([Printf ''Invalid width. The maximum width is %d\<newline>'' [Dec (to_int UINT_MAX)]], 1)
       else if tmp < 0 then Inr (cfg\<lparr>bell_w := - 1\<rparr>)
       else Inr (cfg\<lparr>bell_w := tmp\<rparr>))"
  by (simp add: handle_option_def)

lemma handle_h: "handle_option argv0 cfg (CHR ''h'', a) =
  (case parse_long a of
     None \<Rightarrow> Inl ([Printf ''Invalid height %s\<newline>'' [Str a]], 1)
   | Some tmp \<Rightarrow>
       if tmp > UINT_MAX
       then Inl ([Printf ''Invalid height. The maximum height is %d\<newline>'' [Dec (to_int UINT_MAX)]], 1)
       else if tmp < 0 then Inr (cfg\<lparr>bell_h := - 1\<rparr>)
       else Inr (cfg\<lparr>bell_h := tmp\<rparr>))"
  by (simp add: handle_option_def)

lemma handle_x: "handle_option argv0 cfg (CHR ''x'', a) =
  (case parse_long a of
     None \<Rightarrow> Inl ([Printf ''Invalid x position %s\<newline>'' [Str a]], 1)
   | Some tmp \<Rightarrow>
       if tmp < INT_MIN \<or> tmp > INT_MAX
       then Inl ([Printf ''Invalid x. Must be an integer in the range (%d, %d)\<newline>''
                    [Dec INT_MIN, Dec INT_MAX]], 1)
       else Inr (cfg\<lparr>bell_x := to_int tmp\<rparr>))"
  by (simp add: handle_option_def)

lemma handle_y: "handle_option argv0 cfg (CHR ''y'', a) =
  (case parse_long a of
     None \<Rightarrow> Inl ([Printf ''Invalid y position %s\<newline>'' [Str a]], 1)
   | Some tmp \<Rightarrow>
       if tmp < INT_MIN \<or> tmp > INT_MAX
       then Inl ([Printf ''Invalid y. Must be an integer in the range (%d, %d)\<newline>''
                    [Dec INT_MIN, Dec INT_MAX]], 1)
       else Inr (cfg\<lparr>bell_y := to_int tmp\<rparr>))"
  by (simp add: handle_option_def)

lemma handle_c: "handle_option argv0 cfg (CHR ''c'', a) = Inr (cfg\<lparr>bell_color := Some a\<rparr>)"
  by (simp add: handle_option_def)

lemma handle_d: "handle_option argv0 cfg (CHR ''d'', a) =
  (case parse_ulong a of
     None \<Rightarrow>
       Inl ([Printf ''Invalid duration %s. Should be a non-negative number of milliseconds.\<newline>''
               [Str a]], 1)
   | Some v \<Rightarrow> Inr (cfg\<lparr>bell_duration := v\<rparr>))"
  by (simp add: handle_option_def)

lemma handle_f: "handle_option argv0 cfg (CHR ''f'', a) = Inr (cfg\<lparr>flash_once := True\<rparr>)"
  by (simp add: handle_option_def)

lemma handle_other:
  assumes "c \<noteq> CHR 0x00" "c \<noteq> CHR ''w''" "c \<noteq> CHR ''h''" "c \<noteq> CHR ''x''" "c \<noteq> CHR ''y''" "c \<noteq> CHR ''c''" "c \<noteq> CHR ''d''" "c \<noteq> CHR ''f''"
  shows "handle_option argv0 cfg (c, a) =
     (if c \<noteq> CHR ''?'' then Inl ([Printf ''Invalid option %c\<newline>'' [Chr c], print_usage argv0], 1)
        else Inl ([print_usage argv0], 1))"
  using assms by (simp add: handle_option_def)

lemma option_cases:
  obtains (usage) "c = CHR 0x00" | (w) "c = CHR ''w''" | (h) "c = CHR ''h''" | (x) "c = CHR ''x''"
    | (y) "c = CHR ''y''" | (c) "c = CHR ''c''" | (d) "c = CHR ''d''" | (f) "c = CHR ''f''"
    | (other) "c \<noteq> CHR 0x00" "c \<noteq> CHR ''w''" "c \<noteq> CHR ''h''" "c \<noteq> CHR ''x''"
        "c \<noteq> CHR ''y''" "c \<noteq> CHR ''c''" "c \<noteq> CHR ''d''" "c \<noteq> CHR ''f''"
  by blast

text \<open>
  An option that is accepted changes the width only if it is \<^verbatim>\<open>-w\<close> and the height
  only if it is \<^verbatim>\<open>-h\<close>, and then to the number parsed, or to \<open>- 1\<close> if that is
  negative.
\<close>

lemma handle_option_size:
  assumes "handle_option argv0 cfg (c, a) = Inr cfg'"
  shows "(if c = CHR ''w''
          then \<exists>tmp. parse_long a = Some tmp \<and> tmp \<le> UINT_MAX \<and> bell_w cfg' = (if tmp < 0 then - 1 else tmp)
          else bell_w cfg' = bell_w cfg) \<and>
         (if c = CHR ''h''
          then \<exists>tmp. parse_long a = Some tmp \<and> tmp \<le> UINT_MAX \<and> bell_h cfg' = (if tmp < 0 then - 1 else tmp)
          else bell_h cfg' = bell_h cfg)"
proof (cases c rule: option_cases)
  case usage with assms show ?thesis by (simp add: handle_help)
next
  case w
  with assms have "handle_option argv0 cfg (CHR ''w'', a) = Inr cfg'" by simp
  then show ?thesis unfolding handle_w using w
    by (cases "parse_long a") (auto split: if_splits)
next
  case h
  with assms have "handle_option argv0 cfg (CHR ''h'', a) = Inr cfg'" by simp
  then show ?thesis unfolding handle_h using h
    by (cases "parse_long a") (auto split: if_splits)
next
  case x
  with assms have "handle_option argv0 cfg (CHR ''x'', a) = Inr cfg'" by simp
  then show ?thesis unfolding handle_x using x
    by (cases "parse_long a") (auto split: if_splits)
next
  case y
  with assms have "handle_option argv0 cfg (CHR ''y'', a) = Inr cfg'" by simp
  then show ?thesis unfolding handle_y using y
    by (cases "parse_long a") (auto split: if_splits)
next
  case c
  with assms have "handle_option argv0 cfg (CHR ''c'', a) = Inr cfg'" by simp
  then show ?thesis unfolding handle_c using c by auto
next
  case d
  with assms have "handle_option argv0 cfg (CHR ''d'', a) = Inr cfg'" by simp
  then show ?thesis unfolding handle_d using d
    by (cases "parse_ulong a") auto
next
  case f
  with assms have "handle_option argv0 cfg (CHR ''f'', a) = Inr cfg'" by simp
  then show ?thesis unfolding handle_f using f by auto
next
  case other
  from handle_other [OF other, of argv0 cfg a] assms show ?thesis by (simp split: if_splits)
qed

lemma parse_args_width:
  assumes "parse_args argv0 cfg opts = Inr cfg'" and "same_size (bell_w cfg) v"
    and "- 1 \<le> bell_w cfg" and "bell_w cfg \<le> UINT_MAX"
  shows "same_size (bell_w cfg') (foldl (size_step (CHR ''w'')) v opts) \<and>
         - 1 \<le> bell_w cfg' \<and> bell_w cfg' \<le> UINT_MAX"
  using assms
proof (induction opts arbitrary: cfg v)
  case Nil
  then show ?case by simp
next
  case (Cons opt opts)
  obtain c a where opt: "opt = (c, a)" by (cases opt)
  from Cons.prems(1) obtain cfg1 where h: "handle_option argv0 cfg (c, a) = Inr cfg1"
    and rest: "parse_args argv0 cfg1 opts = Inr cfg'"
    by (auto simp: opt split: sum.splits)
  have step: "same_size (bell_w cfg1) (size_step (CHR ''w'') v opt) \<and> - 1 \<le> bell_w cfg1 \<and> bell_w cfg1 \<le> UINT_MAX"
    using handle_option_size [OF h] Cons.prems(2,3,4)
    by (auto simp: opt size_step_def same_size_def UINT_MAX_def split: if_splits)
  from step have "- 1 \<le> bell_w cfg1" "bell_w cfg1 \<le> UINT_MAX" by simp_all
  from Cons.IH [OF rest conjunct1 [OF step] this] show ?case by (simp add: opt)
qed

lemma parse_args_height:
  assumes "parse_args argv0 cfg opts = Inr cfg'" and "same_size (bell_h cfg) v"
    and "- 1 \<le> bell_h cfg" and "bell_h cfg \<le> UINT_MAX"
  shows "same_size (bell_h cfg') (foldl (size_step (CHR ''h'')) v opts) \<and>
         - 1 \<le> bell_h cfg' \<and> bell_h cfg' \<le> UINT_MAX"
  using assms
proof (induction opts arbitrary: cfg v)
  case Nil
  then show ?case by simp
next
  case (Cons opt opts)
  obtain c a where opt: "opt = (c, a)" by (cases opt)
  from Cons.prems(1) obtain cfg1 where h: "handle_option argv0 cfg (c, a) = Inr cfg1"
    and rest: "parse_args argv0 cfg1 opts = Inr cfg'"
    by (auto simp: opt split: sum.splits)
  have step: "same_size (bell_h cfg1) (size_step (CHR ''h'') v opt) \<and> - 1 \<le> bell_h cfg1 \<and> bell_h cfg1 \<le> UINT_MAX"
    using handle_option_size [OF h] Cons.prems(2,3,4)
    by (auto simp: opt size_step_def same_size_def UINT_MAX_def split: if_splits)
  from step have "- 1 \<le> bell_h cfg1" "bell_h cfg1 \<le> UINT_MAX" by simp_all
  from Cons.IH [OF rest conjunct1 [OF step] this] show ?case by (simp add: opt)
qed

lemma parse_args_append:
  "parse_args argv0 cfg (xs @ ys) =
     (case parse_args argv0 cfg xs of Inl stop \<Rightarrow> Inl stop | Inr cfg' \<Rightarrow> parse_args argv0 cfg' ys)"
  by (induction xs arbitrary: cfg) (simp_all split: sum.splits)

text \<open>
  Evaluating the parsers on a literal.
\<close>

lemmas parse_eval = parse_long_def parse_ulong_def strtol_def strtoul_def scan_number_def
  scan_sign_def isspace_def isdigit_def digits_value_def LONG_MAX_def LONG_MIN_def
  ULONG_MAX_def UINT_MAX_def INT_MAX_def INT_MIN_def to_long_def to_ulong_def

text \<open>
  What the parsers make of a text that is a numeral and of one that is not.
\<close>

lemma not_numeral_parse_long:
  assumes "numeral_value s = None" "s \<noteq> []"
  shows "parse_long s = None"
  using assms
  by (auto simp: parse_long_def strtol_def numeral_value_def Let_def split: option.splits if_splits)

lemma not_numeral_parse_ulong:
  assumes "numeral_value s = None" "s \<noteq> []"
  shows "parse_ulong s = None"
  using assms
  by (auto simp: parse_ulong_def strtoul_def numeral_value_def Let_def split: option.splits if_splits)

lemma numeral_parse_long:
  assumes "numeral_value s = Some v"
  shows "parse_long s = (if v > LONG_MAX \<or> v < LONG_MIN then None else Some v)"
  using assms
  by (auto simp: parse_long_def strtol_def numeral_value_def Let_def LONG_MAX_def LONG_MIN_def
      split: option.splits if_splits)

lemma digits_value_nonneg: "0 \<le> (acc::int) \<Longrightarrow> \<forall>c\<in>set ds. isdigit c \<Longrightarrow>
    0 \<le> foldl (\<lambda>acc c. acc * 10 + (of_char c - 48)) acc ds"
proof (induction ds arbitrary: acc)
  case Nil then show ?case by simp
next
  case (Cons c ds)
  from Cons.prems(2) have "isdigit c" by simp
  then have "(of_char c :: int) \<ge> 48" by (auto simp: isdigit_def)
  with Cons.prems(1) have "0 \<le> acc * 10 + (of_char c - 48)" by simp
  with Cons.IH [of "acc * 10 + (of_char c - 48)"] Cons.prems(2) show ?case by simp
qed

lemma numeral_parse_ulong:
  assumes "numeral_value s = Some v" "v > ULONG_MAX \<or> v < - ULONG_MAX"
  shows "parse_ulong s = None"
proof -
  from assms(1) obtain negative ds where sc: "scan_number s = Some (negative, ds, [])"
    and v: "v = (if negative then - digits_value ds else digits_value ds)"
    by (auto simp: numeral_value_def split: option.splits if_splits)
  from sc have "ds = takeWhile isdigit (snd (scan_sign (dropWhile isspace s)))"
    by (auto simp: scan_number_def Let_def split: prod.splits if_splits)
  then have "\<forall>c\<in>set ds. isdigit c" by (auto dest: set_takeWhileD)
  then have "0 \<le> digits_value ds" unfolding digits_value_def by (intro digits_value_nonneg) simp_all
  with assms(2) v have "digits_value ds > ULONG_MAX" by (auto simp: ULONG_MAX_def split: if_splits)
  with sc show ?thesis
    by (simp add: parse_ulong_def strtoul_def to_long_def ULONG_MAX_def)
qed

lemma refused_option:
  assumes "rejection_of option optarg = Some r"
  shows "\<exists>args. handle_option argv0 cfg (option, optarg)
            = Inl ([Printf (rejection_format option r) args], 1) \<and>
           rejection_args option r optarg args"
proof (cases "numeral_value optarg")
  case None
  with assms have ne: "optarg \<noteq> []" and o: "option \<in> set ''whxyd''" and r: "r = Unreadable"
    by (simp_all add: rejection_of_def split: if_splits)
  from None ne have pl: "parse_long optarg = None" by (rule not_numeral_parse_long)
  from None ne have pu: "parse_ulong optarg = None" by (rule not_numeral_parse_ulong)
  from o consider "option = CHR ''w''" | "option = CHR ''h''" | "option = CHR ''x''"
    | "option = CHR ''y''" | "option = CHR ''d''" by auto
  then show ?thesis
  proof cases
    case 1 then show ?thesis by (simp add: handle_w pl r rejection_format_def rejection_args_def)
  next
    case 2 then show ?thesis by (simp add: handle_h pl r rejection_format_def rejection_args_def)
  next
    case 3 then show ?thesis by (simp add: handle_x pl r rejection_format_def rejection_args_def)
  next
    case 4 then show ?thesis by (simp add: handle_y pl r rejection_format_def rejection_args_def)
  next
    case 5 then show ?thesis by (simp add: handle_d pu r rejection_format_def rejection_args_def)
  qed
next
  case (Some v)
  note pl = numeral_parse_long [OF Some]
  from assms Some consider
      (w) "option = CHR ''w''"
        "r = (if v > LONG_MAX \<or> v < LONG_MIN then Unreadable else Out_of_range)"
        "v > LONG_MAX \<or> v < LONG_MIN \<or> v > UINT_MAX"
    | (h) "option = CHR ''h''"
        "r = (if v > LONG_MAX \<or> v < LONG_MIN then Unreadable else Out_of_range)"
        "v > LONG_MAX \<or> v < LONG_MIN \<or> v > UINT_MAX"
    | (x) "option = CHR ''x''"
        "r = (if v > LONG_MAX \<or> v < LONG_MIN then Unreadable else Out_of_range)"
        "v > LONG_MAX \<or> v < LONG_MIN \<or> v < INT_MIN \<or> v > INT_MAX"
    | (y) "option = CHR ''y''"
        "r = (if v > LONG_MAX \<or> v < LONG_MIN then Unreadable else Out_of_range)"
        "v > LONG_MAX \<or> v < LONG_MIN \<or> v < INT_MIN \<or> v > INT_MAX"
    | (d) "option = CHR ''d''" "r = Unreadable" "v > ULONG_MAX \<or> v < - ULONG_MAX"
    by (auto simp: rejection_of_def split: if_splits)
  then show ?thesis
  proof cases
    case w then show ?thesis
      by (auto simp: handle_w pl rejection_format_def rejection_args_def)
  next
    case h then show ?thesis
      by (auto simp: handle_h pl rejection_format_def rejection_args_def)
  next
    case x then show ?thesis
      by (auto simp: handle_x pl rejection_format_def rejection_args_def)
  next
    case y then show ?thesis
      by (auto simp: handle_y pl rejection_format_def rejection_args_def)
  next
    case d
    from numeral_parse_ulong [OF Some d(3)] d(1,2) show ?thesis
      by (simp add: handle_d rejection_format_def rejection_args_def)
  qed
qed

text \<open>
  C8, as amended. When the options before it are accepted and the argument of a numeric
  option is unreadable or out of range, the program prints the one message that belongs
  to the option and the reason, and exits with status 1. An unreadable argument is named
  in its message, a position out of range gets the two bounds of \<^verbatim>\<open>int\<close>. Nothing else
  happens: the usage text is not printed and no display is opened.
\<close>

theorem malformed_argument_exits:
  assumes "parse_args argv0 initial_config before = Inr cfg"
    and "rejection_of option optarg = Some r"
  shows "\<exists>args.
           main xs argv0 (before @ (option, optarg) # after) start readings garbage inputs
             = ([Printf (rejection_format option r) args], Some 1) \<and>
           rejection_args option r optarg args"
proof -
  from refused_option [OF assms(2), of argv0 cfg] obtain args
    where h: "handle_option argv0 cfg (option, optarg)
        = Inl ([Printf (rejection_format option r) args], 1)"
      and a: "rejection_args option r optarg args"
    by blast
  have "parse_args argv0 initial_config (before @ (option, optarg) # after)
      = Inl ([Printf (rejection_format option r) args], 1)"
    by (simp add: parse_args_append assms(1) h)
  then have "main xs argv0 (before @ (option, optarg) # after) start readings garbage inputs
      = ([Printf (rejection_format option r) args], Some 1)"
    by (simp add: main_def main_setup_def)
  with a show ?thesis by blast
qed

theorem malformed_argument_exits_witness:
  "parse_args ''xvisbell'' initial_config [(CHR ''f'', [])]
     = Inr (initial_config\<lparr>flash_once := True\<rparr>) \<and>
   rejection_of (CHR ''x'') ''12abc'' = Some Unreadable \<and>
   rejection_of (CHR ''w'') ''4294967296'' = Some Out_of_range \<and>
   main example_server ''xvisbell'' ([(CHR ''f'', [])] @ (CHR ''x'', ''12abc'') # [])
       \<lparr>tv_sec = 0, tv_nsec = 0\<rparr> [] \<lparr>tv_sec = 0, tv_nsec = 0\<rparr> []
     = ([Printf ''Invalid x position %s\<newline>'' [Str ''12abc'']], Some 1) \<and>
   (\<exists>args.
      main example_server ''xvisbell'' ([(CHR ''f'', [])] @ (CHR ''w'', ''4294967296'') # [])
          \<lparr>tv_sec = 0, tv_nsec = 0\<rparr> [] \<lparr>tv_sec = 0, tv_nsec = 0\<rparr> []
        = ([Printf ''Invalid width. The maximum width is %d\<newline>'' args], Some 1) \<and>
      length args = 1)"
proof -
  have h1: "parse_args ''xvisbell'' initial_config [(CHR ''f'', [])]
      = Inr (initial_config\<lparr>flash_once := True\<rparr>)"
    by (simp add: handle_f)
  have h2: "rejection_of (CHR ''x'') ''12abc'' = Some Unreadable"
    by (simp add: rejection_of_def numeral_value_def scan_number_def scan_sign_def
        isspace_def isdigit_def)
  have h3: "rejection_of (CHR ''w'') ''4294967296'' = Some Out_of_range"
    by (simp add: rejection_of_def numeral_value_def scan_number_def scan_sign_def
        isspace_def isdigit_def digits_value_def LONG_MAX_def LONG_MIN_def UINT_MAX_def)
  have f2: "rejection_format (CHR ''x'') Unreadable = ''Invalid x position %s\<newline>''"
    by (simp add: rejection_format_def)
  have f3: "rejection_format (CHR ''w'') Out_of_range
      = ''Invalid width. The maximum width is %d\<newline>''"
    by (simp add: rejection_format_def)
  have a2: "rejection_args (CHR ''x'') Unreadable ''12abc'' args \<longleftrightarrow> args = [Str ''12abc'']"
    for args by (simp add: rejection_args_def)
  have a3: "rejection_args (CHR ''w'') Out_of_range ''4294967296'' args \<longleftrightarrow> length args = 1"
    for args by (simp add: rejection_args_def)
  from malformed_argument_exits [OF h1 h2, of example_server "[]"
      "\<lparr>tv_sec = 0, tv_nsec = 0\<rparr>" "[]" "\<lparr>tv_sec = 0, tv_nsec = 0\<rparr>" "[]"]
  have r2: "main example_server ''xvisbell'' ([(CHR ''f'', [])] @ (CHR ''x'', ''12abc'') # [])
       \<lparr>tv_sec = 0, tv_nsec = 0\<rparr> [] \<lparr>tv_sec = 0, tv_nsec = 0\<rparr> []
     = ([Printf ''Invalid x position %s\<newline>'' [Str ''12abc'']], Some 1)"
    unfolding f2 a2 by blast
  from malformed_argument_exits [OF h1 h3, of example_server "[]"
      "\<lparr>tv_sec = 0, tv_nsec = 0\<rparr>" "[]" "\<lparr>tv_sec = 0, tv_nsec = 0\<rparr>" "[]"]
  have r3: "\<exists>args.
      main example_server ''xvisbell'' ([(CHR ''f'', [])] @ (CHR ''w'', ''4294967296'') # [])
          \<lparr>tv_sec = 0, tv_nsec = 0\<rparr> [] \<lparr>tv_sec = 0, tv_nsec = 0\<rparr> []
        = ([Printf ''Invalid width. The maximum width is %d\<newline>'' args], Some 1) \<and>
      length args = 1"
    unfolding f3 a3 .
  from h1 h2 h3 r2 r3 show ?thesis by blast
qed

text \<open>
  C8, as stated, asks for the usage text after the message. For \<^verbatim>\<open>-w abc\<close> the
  program prints the message alone.
\<close>

theorem malformed_argument_prints_no_usage:
  "main example_server ''xvisbell'' [(CHR ''w'', ''abc'')]
      \<lparr>tv_sec = 0, tv_nsec = 0\<rparr> [] \<lparr>tv_sec = 0, tv_nsec = 0\<rparr> []
     = ([Printf ''Invalid width %s\<newline>'' [Str ''abc'']], Some 1) \<and>
   print_usage ''xvisbell'' \<notin> set [Printf ''Invalid width %s\<newline>'' [Str ''abc'']]"
  by (simp add: main_def main_setup_def handle_w parse_long_def strtol_def scan_number_def
      scan_sign_def isspace_def isdigit_def print_usage_def)

text \<open>
  A negative duration is not rejected: \<^verbatim>\<open>strtoul\<close> negates it in
  \<^verbatim>\<open>unsigned long\<close> without setting \<^verbatim>\<open>ERANGE\<close>, and the test for a negative value
  in \<^verbatim>\<open>parse_ulong\<close> is only made under \<^verbatim>\<open>ERANGE\<close>.
\<close>

lemma negative_duration_accepted:
  "handle_option argv0 cfg (CHR ''d'', ''-5'') = Inr (cfg\<lparr>bell_duration := 18446744073709551611\<rparr>)"
  by (simp add: handle_d parse_ulong_def strtoul_def scan_number_def scan_sign_def isspace_def
      isdigit_def digits_value_def to_long_def to_ulong_def ULONG_MAX_def LONG_MAX_def)

text \<open>
  The message about a width above \<^verbatim>\<open>UINT_MAX\<close> gives the maximum as \<open>- 1\<close>.
\<close>

lemma maximum_width_printed:
  "handle_option argv0 cfg (CHR ''w'', ''4294967296'')
     = Inl ([Printf ''Invalid width. The maximum width is %d\<newline>'' [Dec (- 1)]], 1)"
  by (simp add: handle_w parse_eval to_int_def)

subsection \<open>The window\<close>

lemma to_uint_to_int_mod: "to_uint (to_int v) = to_uint v"
proof -
  have "((v + 2147483648) mod 4294967296 - 2147483648) mod 4294967296
      = ((v + 2147483648) - 2147483648) mod 4294967296"
    by (rule mod_diff_left_eq)
  then show ?thesis by (simp add: to_uint_def to_int_def)
qed

lemma to_uint_to_int: "0 \<le> v \<Longrightarrow> v \<le> UINT_MAX \<Longrightarrow> to_uint (to_int v) = v"
  unfolding to_uint_to_int_mod by (simp add: to_uint_def UINT_MAX_def)

lemma main_setup_window:
  assumes "main_setup xs argv0 opts = (effs, Inr cfg)"
  shows "parse_args argv0 initial_config opts = Inr cfg \<and>
         (\<exists>pixel. last effs = XCreateWindow (bell_x cfg) (bell_y cfg)
            (to_uint (window_width xs cfg)) (to_uint (window_height xs cfg)) pixel)"
  using assms
  by (auto simp: main_setup_def split: sum.splits prod.splits if_splits)

text \<open>
  C7. Whenever the program creates its window, the width of the window is the width of
  the display if the width supplied is negative (which the default is), and the width
  supplied otherwise; the same holds for the height.
\<close>

theorem window_size_resolved:
  assumes "main_setup xs argv0 opts = (effs, Inr cfg)"
    and "0 \<le> display_width xs" "display_width xs \<le> INT_MAX"
    and "0 \<le> display_height xs" "display_height xs \<le> INT_MAX"
  shows "\<exists>pixel. last effs = XCreateWindow (bell_x cfg) (bell_y cfg)
           (if supplied_size (CHR ''w'') opts < 0 then display_width xs else supplied_size (CHR ''w'') opts)
           (if supplied_size (CHR ''h'') opts < 0 then display_height xs else supplied_size (CHR ''h'') opts)
           pixel"
proof -
  from main_setup_window [OF assms(1)] obtain pixel
    where p: "parse_args argv0 initial_config opts = Inr cfg"
      and l: "last effs = XCreateWindow (bell_x cfg) (bell_y cfg)
            (to_uint (window_width xs cfg)) (to_uint (window_height xs cfg)) pixel"
    by blast
  have w: "same_size (bell_w cfg) (supplied_size (CHR ''w'') opts) \<and> - 1 \<le> bell_w cfg \<and> bell_w cfg \<le> UINT_MAX"
    unfolding supplied_size_def
    by (rule parse_args_width [OF p]) (simp_all add: initial_config_def same_size_def UINT_MAX_def)
  have h: "same_size (bell_h cfg) (supplied_size (CHR ''h'') opts) \<and> - 1 \<le> bell_h cfg \<and> bell_h cfg \<le> UINT_MAX"
    unfolding supplied_size_def
    by (rule parse_args_height [OF p]) (simp_all add: initial_config_def same_size_def UINT_MAX_def)
  have dw: "to_uint (to_int (display_width xs)) = display_width xs"
    using assms(2,3) by (intro to_uint_to_int) (simp_all add: INT_MAX_def UINT_MAX_def)
  have dh: "to_uint (to_int (display_height xs)) = display_height xs"
    using assms(4,5) by (intro to_uint_to_int) (simp_all add: INT_MAX_def UINT_MAX_def)
  have W: "to_uint (window_width xs cfg) =
      (if supplied_size (CHR ''w'') opts < 0 then display_width xs else supplied_size (CHR ''w'') opts)"
    using w dw by (auto simp: window_width_def same_size_def to_uint_to_int)
  have H: "to_uint (window_height xs cfg) =
      (if supplied_size (CHR ''h'') opts < 0 then display_height xs else supplied_size (CHR ''h'') opts)"
    using h dh by (auto simp: window_height_def same_size_def to_uint_to_int)
  from l W H show ?thesis by simp
qed

theorem window_size_resolved_witness:
  "main_setup example_server ''xvisbell'' [(CHR ''w'', ''-7''), (CHR ''h'', ''300'')]
     = (connect_effects @ [XCreateWindow 0 0 1920 300 16777215],
        Inr (initial_config\<lparr>bell_w := - 1, bell_h := 300\<rparr>)) \<and>
   supplied_size (CHR ''w'') [(CHR ''w'', ''-7''), (CHR ''h'', ''300'')] = - 7 \<and>
   supplied_size (CHR ''h'') [(CHR ''w'', ''-7''), (CHR ''h'', ''300'')] = 300 \<and>
   (\<exists>pixel. last (connect_effects @ [XCreateWindow 0 0 1920 300 16777215]) =
      XCreateWindow (bell_x (initial_config\<lparr>bell_w := - 1, bell_h := 300\<rparr>))
        (bell_y (initial_config\<lparr>bell_w := - 1, bell_h := 300\<rparr>))
        (if supplied_size (CHR ''w'') [(CHR ''w'', ''-7''), (CHR ''h'', ''300'')] < 0
         then display_width example_server
         else supplied_size (CHR ''w'') [(CHR ''w'', ''-7''), (CHR ''h'', ''300'')])
        (if supplied_size (CHR ''h'') [(CHR ''w'', ''-7''), (CHR ''h'', ''300'')] < 0
         then display_height example_server
         else supplied_size (CHR ''h'') [(CHR ''w'', ''-7''), (CHR ''h'', ''300'')])
        pixel)"
proof -
  have pw: "parse_long ''-7'' = Some (- 7)" by (simp add: parse_eval)
  have ph: "parse_long ''300'' = Some 300" by (simp add: parse_eval)
  have m: "main_setup example_server ''xvisbell'' [(CHR ''w'', ''-7''), (CHR ''h'', ''300'')]
     = (connect_effects @ [XCreateWindow 0 0 1920 300 16777215],
        Inr (initial_config\<lparr>bell_w := - 1, bell_h := 300\<rparr>))"
    by (simp add: main_setup_def handle_w handle_h pw ph UINT_MAX_def example_server_def
        background_pixel_def window_width_def window_height_def to_int_def to_uint_def
        initial_config_def)
  have sw: "supplied_size (CHR ''w'') [(CHR ''w'', ''-7''), (CHR ''h'', ''300'')] = - 7"
    by (simp add: supplied_size_def size_step_def pw ph)
  have sh: "supplied_size (CHR ''h'') [(CHR ''w'', ''-7''), (CHR ''h'', ''300'')] = 300"
    by (simp add: supplied_size_def size_step_def pw ph)
  have d: "0 \<le> display_width example_server" "display_width example_server \<le> INT_MAX"
    "0 \<le> display_height example_server" "display_height example_server \<le> INT_MAX"
    by (simp_all add: example_server_def INT_MAX_def)
  from window_size_resolved [OF m d] m sw sh show ?thesis by blast
qed

text \<open>
  C10. A colour whose first five characters are \<open>white\<close> gives the window the white
  pixel of the screen, and the server is never asked for it: whatever the server would
  answer, no lookup fails and no other pixel is used.
\<close>

theorem white_prefix_skips_lookup:
  assumes "parse_args argv0 initial_config opts = Inr cfg"
    and "bell_color cfg = Some name" and "take 5 name = ''white''"
    and "display_available xs" "xkb_library_ok xs" "xkb_extension_ok xs"
  shows "main_setup xs argv0 opts =
           (connect_effects @
              [XCreateWindow (bell_x cfg) (bell_y cfg)
                 (to_uint (window_width xs cfg)) (to_uint (window_height xs cfg)) (white_pixel xs)],
            Inr cfg) \<and>
         XAllocNamedColor name \<notin> set (fst (main_setup xs argv0 opts))"
  using assms
  by (simp add: main_setup_def background_pixel_def strncmp_equal_def connect_effects_def)

theorem white_prefix_skips_lookup_witness:
  "parse_args ''xvisbell'' initial_config [(CHR ''c'', ''whitesmoke'')]
     = Inr (initial_config\<lparr>bell_color := Some ''whitesmoke''\<rparr>) \<and>
   take 5 ''whitesmoke'' = ''white'' \<and>
   named_color example_server ''whitesmoke'' = Some 16119285 \<and>
   main_setup example_server ''xvisbell'' [(CHR ''c'', ''whitesmoke'')]
     = (connect_effects @ [XCreateWindow 0 0 1920 1080 16777215],
        Inr (initial_config\<lparr>bell_color := Some ''whitesmoke''\<rparr>)) \<and>
   XAllocNamedColor ''whitesmoke''
     \<notin> set (fst (main_setup example_server ''xvisbell'' [(CHR ''c'', ''whitesmoke'')]))"
proof -
  have p: "parse_args ''xvisbell'' initial_config [(CHR ''c'', ''whitesmoke'')]
     = Inr (initial_config\<lparr>bell_color := Some ''whitesmoke''\<rparr>)"
    by (simp add: handle_c)
  have c: "bell_color (initial_config\<lparr>bell_color := Some ''whitesmoke''\<rparr>) = Some ''whitesmoke''"
    by simp
  have t: "take 5 ''whitesmoke'' = ''white''" by simp
  have s: "display_available example_server" "xkb_library_ok example_server"
    "xkb_extension_ok example_server"
    by (simp_all add: example_server_def)
  have n: "named_color example_server ''whitesmoke'' = Some 16119285"
    by (simp add: example_server_def)
  have g: "bell_x (initial_config\<lparr>bell_color := Some ''whitesmoke''\<rparr>) = 0"
    "bell_y (initial_config\<lparr>bell_color := Some ''whitesmoke''\<rparr>) = 0"
    "to_uint (window_width example_server (initial_config\<lparr>bell_color := Some ''whitesmoke''\<rparr>)) = 1920"
    "to_uint (window_height example_server (initial_config\<lparr>bell_color := Some ''whitesmoke''\<rparr>)) = 1080"
    "white_pixel example_server = 16777215"
    by (simp_all add: window_width_def window_height_def initial_config_def example_server_def
        to_int_def to_uint_def)
  from white_prefix_skips_lookup [OF p c t s] have "main_setup example_server ''xvisbell'' [(CHR ''c'', ''whitesmoke'')]
     = (connect_effects @ [XCreateWindow 0 0 1920 1080 16777215],
        Inr (initial_config\<lparr>bell_color := Some ''whitesmoke''\<rparr>)) \<and>
   XAllocNamedColor ''whitesmoke''
     \<notin> set (fst (main_setup example_server ''xvisbell'' [(CHR ''c'', ''whitesmoke'')]))"
    unfolding g .
  with p t n show ?thesis by blast
qed

text \<open>
  The colours that are looked up. Without a colour the background is the white pixel. A
  colour that does not begin with \<open>white\<close> is looked up on the server: if the server does
  not know it, the program prints a message with the name and exits with status 1 before
  it creates the window; if it does, the window gets the pixel found.
\<close>

lemma background_colour_resolution:
  assumes "parse_args argv0 initial_config opts = Inr cfg"
    and "display_available xs" "xkb_library_ok xs" "xkb_extension_ok xs"
  shows "(bell_color cfg = None \<longrightarrow>
            main_setup xs argv0 opts =
              (connect_effects @
                 [XCreateWindow (bell_x cfg) (bell_y cfg) (to_uint (window_width xs cfg))
                    (to_uint (window_height xs cfg)) (white_pixel xs)], Inr cfg)) \<and>
         (\<forall>name. bell_color cfg = Some name \<and> take 5 name \<noteq> ''white'' \<and>
             named_color xs name = None \<longrightarrow>
            main xs argv0 opts start readings garbage inputs =
              (connect_effects @
                 [XAllocNamedColor name, Printf ''Colour %s isn't supported\<newline>'' [Str name]],
               Some 1)) \<and>
         (\<forall>name pixel. bell_color cfg = Some name \<and> take 5 name \<noteq> ''white'' \<and>
             named_color xs name = Some pixel \<longrightarrow>
            main_setup xs argv0 opts =
              (connect_effects @
                 [XAllocNamedColor name,
                  XCreateWindow (bell_x cfg) (bell_y cfg) (to_uint (window_width xs cfg))
                    (to_uint (window_height xs cfg)) pixel], Inr cfg))"
  using assms
  by (simp add: main_def main_setup_def background_pixel_def strncmp_equal_def)

lemma background_colour_resolution_example:
  "parse_args ''xvisbell'' initial_config [(CHR ''c'', ''notacolor123'')]
     = Inr (initial_config\<lparr>bell_color := Some ''notacolor123''\<rparr>) \<and>
   take 5 ''notacolor123'' \<noteq> ''white'' \<and>
   named_color example_server ''notacolor123'' = None \<and>
   main example_server ''xvisbell'' [(CHR ''c'', ''notacolor123'')]
       \<lparr>tv_sec = 0, tv_nsec = 0\<rparr> [] \<lparr>tv_sec = 0, tv_nsec = 0\<rparr> []
     = (connect_effects @
          [XAllocNamedColor ''notacolor123'',
           Printf ''Colour %s isn't supported\<newline>'' [Str ''notacolor123'']],
        Some 1)"
proof -
  have p: "parse_args ''xvisbell'' initial_config [(CHR ''c'', ''notacolor123'')]
     = Inr (initial_config\<lparr>bell_color := Some ''notacolor123''\<rparr>)"
    by (simp add: handle_c)
  have s: "display_available example_server" "xkb_library_ok example_server"
    "xkb_extension_ok example_server"
    by (simp_all add: example_server_def)
  have t: "take 5 ''notacolor123'' \<noteq> ''white''" by simp
  have n: "named_color example_server ''notacolor123'' = None"
    by (simp add: example_server_def)
  from background_colour_resolution [OF p s, of "\<lparr>tv_sec = 0, tv_nsec = 0\<rparr>" "[]" "\<lparr>tv_sec = 0, tv_nsec = 0\<rparr>" "[]"] p t n
  show ?thesis by simp
qed

text \<open>
  C9. Without a colour the background is white; a colour that is given is looked up on the
  server, and when the server does not know it the program prints a message with the name
  and exits with a status other than 0, without creating the window. The server knows no
  colour \<open>whiteXYZ\<close>; given that name the program asks nothing, prints nothing and
  creates a white window.
\<close>

theorem white_prefix_never_fails:
  "named_color example_server ''whiteXYZ'' = None \<and>
   main_setup example_server ''xvisbell'' [(CHR ''c'', ''whiteXYZ'')]
     = (connect_effects @ [XCreateWindow 0 0 1920 1080 16777215],
        Inr (initial_config\<lparr>bell_color := Some ''whiteXYZ''\<rparr>))"
  by (simp add: main_setup_def handle_c background_pixel_def strncmp_equal_def
      example_server_def window_width_def window_height_def to_int_def to_uint_def
      initial_config_def)

end
